theory Spec2Isabelle
  imports Complex_Main "HOL-Library.Sublist"
begin

section \<open>Strings\<close>

text \<open>
  Python strings are modelled as \<^typ>\<open>string\<close>: a list of characters with code points
  below 256.  \<open>needle in hay\<close> on strings is contiguous containment, which is
  \<^const>\<open>sublist\<close>; \<open>s.endswith(t)\<close> is \<^const>\<open>suffix\<close>.
\<close>

abbreviation substring :: "string \<Rightarrow> string \<Rightarrow> bool" where
  "substring needle hay \<equiv> sublist needle hay"

text \<open>
  \<open>str.lower()\<close>, character by character.  On code points below 256 Python lowers the
  letters A to Z and the Latin-1 capitals U+00C0 to U+00DE (the multiplication sign
  U+00D7 apart) by adding 32, and leaves every other character alone.
\<close>

definition lower_char :: "char \<Rightarrow> char" where
  "lower_char c =
     (let n = (of_char c :: nat)
      in if (65 \<le> n \<and> n \<le> 90) \<or> (192 \<le> n \<and> n \<le> 222 \<and> n \<noteq> 215)
         then char_of (n + 32) else c)"

definition lower :: "string \<Rightarrow> string" where
  "lower s = map lower_char s"

text \<open>\<open>sep.join(xs)\<close>.\<close>

fun join :: "string \<Rightarrow> string list \<Rightarrow> string" where
  "join sep [] = []"
| "join sep [x] = x"
| "join sep (x # y # ys) = x @ sep @ join sep (y # ys)"

text \<open>\<open>str(n)\<close> for a non-negative integer, as the f-strings print the two counts.\<close>

definition digit_char :: "nat \<Rightarrow> char" where
  "digit_char d = char_of (48 + d)"

function show_nat :: "nat \<Rightarrow> string" where
  "show_nat n = (if n < 10 then [digit_char n] else show_nat (n div 10) @ [digit_char (n mod 10)])"
  by pat_completeness auto
termination
  by (relation "measure (\<lambda>n. n)") auto

declare show_nat.simps [simp del]

text \<open>
  \<open>repr\<close> of a list of strings, as \<open>f"{found_ids}"\<close> prints it.  The strings printed are
  vocabulary terms, which hold no quote, backslash or control character, so each is
  printed between single quotes unchanged.
\<close>

definition repr_str :: "string \<Rightarrow> string" where
  "repr_str s = [CHR 0x27] @ s @ [CHR 0x27]"

definition repr_list :: "string list \<Rightarrow> string" where
  "repr_list xs = ''['' @ join '', '' (map repr_str xs) @ '']''"

section \<open>Configuration (config.py)\<close>

definition UNIT_NUMBER :: string where
  "UNIT_NUMBER = ''574''"

definition FULL_VIN :: string where
  "FULL_VIN = ''3AKJHHDR7KSKE1598''"

text \<open>\<open>FULL_VIN[-k:]\<close> is the last \<open>k\<close> characters (the whole string when it is shorter).\<close>

definition VIN_LAST_8 :: string where
  "VIN_LAST_8 = drop (length FULL_VIN - 8) FULL_VIN"

definition VIN_LAST_6 :: string where
  "VIN_LAST_6 = drop (length FULL_VIN - 6) FULL_VIN"

definition VIN_LAST_4 :: string where
  "VIN_LAST_4 = drop (length FULL_VIN - 4) FULL_VIN"

definition SEARCH_TERMS :: "string list" where
  "SEARCH_TERMS =
    [FULL_VIN, VIN_LAST_8, VIN_LAST_6, VIN_LAST_4, UNIT_NUMBER,
     ''Unit '' @ UNIT_NUMBER, ''Unit#'' @ UNIT_NUMBER, ''Unit-'' @ UNIT_NUMBER,
     ''Truck '' @ UNIT_NUMBER, ''Truck#'' @ UNIT_NUMBER, ''Unit: '' @ UNIT_NUMBER]"

definition MECHANIC_KEYWORDS :: "string list" where
  "MECHANIC_KEYWORDS =
    [''invoice'', ''repair'', ''mechanic'', ''service'', ''maintenance'',
     ''preventive maintenance'', ''pm service'',
     ''tow'', ''towing'', ''roadside'', ''breakdown'', ''recovery'',
     ''oil change'', ''lube'', ''lubricant'', ''fluid'', ''coolant'', ''antifreeze'',
     ''def'', ''diesel exhaust fluid'',
     ''parts'', ''brake'', ''tire'', ''battery'', ''filter'', ''belt'', ''hose'',
     ''alternator'', ''starter'', ''transmission'', ''engine'', ''exhaust'', ''dpf'',
     ''egr'', ''turbo'', ''suspension'', ''steering'', ''axle'', ''wheel'', ''bearing'',
     ''labor'', ''labour'', ''diagnostic'', ''inspection'', ''dot inspection'',
     ''annual inspection'',
     ''truck shop'', ''truck repair'', ''diesel repair'', ''freightliner'', ''peterbilt'',
     ''kenworth'', ''volvo'', ''international'', ''mack'', ''ta petro'', ''loves'',
     ''pilot'', ''speedco'', ''rush truck'']"

definition EXCLUDE_KEYWORDS :: "string list" where
  "EXCLUDE_KEYWORDS =
    [''rate confirmation'', ''rate con'', ''ratecon'', ''rate sheet'',
     ''load confirmation'', ''load tender'', ''dispatch'', ''broker'', ''freight'',
     ''shipment'', ''pickup'', ''delivery'', ''bol'', ''bill of lading'', ''pod'',
     ''proof of delivery'', ''lumper'', ''detention'', ''accessorial'',
     ''insurance policy'', ''certificate of insurance'', ''ifta'', ''2290'',
     ''registration renewal'',
     ''fuel discount report'', ''rxo fuel discount'', ''fuel receipt'', ''comdata'',
     ''efs'', ''tcheck'', ''pilot flying j'', ''pricing - pilot'',
     ''settlement'', ''pay stub'', ''payroll'', ''direct deposit'', ''1099'', ''w2'',
     ''zelle'', ''payment has been sent'']"

definition EXCLUDE_SENDERS :: "string list" where
  "EXCLUDE_SENDERS =
    [''no-reply@dat.com'', ''no-reply@truckstop.com'', ''notifications@keeptruckin.com'',
     ''notifications@motive.com'', ''noreply@uber.com'']"

section \<open>The classifier (scanner.py, class InvoiceClassifier)\<close>

record InvoiceClassifier =
  mechanic_keywords :: "string list"
  exclude_keywords :: "string list"
  search_terms :: "string list"
  exclude_senders :: "string list"

text \<open>\<open>InvoiceClassifier.__init__\<close>: the four vocabularies, lowered.\<close>

definition InvoiceClassifier_init :: InvoiceClassifier where
  "InvoiceClassifier_init =
     \<lparr>mechanic_keywords = map lower MECHANIC_KEYWORDS,
      exclude_keywords = map lower EXCLUDE_KEYWORDS,
      search_terms = map lower SEARCH_TERMS,
      exclude_senders = map lower EXCLUDE_SENDERS\<rparr>"

text \<open>
  \<open>contains_truck_identifier\<close>: the loop appends, in vocabulary order, every term whose
  lowered form occurs in the lowered text.
\<close>

definition contains_truck_identifier :: "InvoiceClassifier \<Rightarrow> string \<Rightarrow> bool \<times> string list" where
  "contains_truck_identifier self text =
     (let text_lower = lower text;
          found_terms = filter (\<lambda>term. substring (lower term) text_lower) (search_terms self)
      in (length found_terms > 0, found_terms))"

definition is_mechanic_related :: "InvoiceClassifier \<Rightarrow> string \<Rightarrow> bool \<times> string list" where
  "is_mechanic_related self text =
     (let text_lower = lower text;
          found_keywords = filter (\<lambda>keyword. substring keyword text_lower) (mechanic_keywords self)
      in (length found_keywords > 0, found_keywords))"

text \<open>
  \<open>should_exclude\<close>, first loop: the first excluded sender that occurs in the lowered
  sender ends the function.  \<open>None\<close> means the loop ran to its end.
\<close>

fun exclude_sender_loop :: "string \<Rightarrow> string list \<Rightarrow> (bool \<times> string) option" where
  "exclude_sender_loop sender_lower [] = None"
| "exclude_sender_loop sender_lower (excluded_sender # rest) =
     (if substring excluded_sender sender_lower
      then Some (True, ''Excluded sender: '' @ excluded_sender)
      else exclude_sender_loop sender_lower rest)"

text \<open>
  \<open>should_exclude\<close>, second loop over the exclusion keywords.  A keyword found in the
  text returns at once when it holds both \<open>rate\<close> and \<open>confirm\<close>; any other keyword
  found counts the exclusion and the mechanic keywords in the whole text and returns
  when the first count is the larger; otherwise the loop goes on.
\<close>

fun exclude_keyword_loop :: "InvoiceClassifier \<Rightarrow> string \<Rightarrow> string list \<Rightarrow> bool \<times> string" where
  "exclude_keyword_loop self text_lower [] = (False, '''')"
| "exclude_keyword_loop self text_lower (keyword # rest) =
     (if substring keyword text_lower then
        if substring ''rate'' keyword \<and> substring ''confirm'' keyword
        then (True, ''Rate confirmation detected'')
        else
          let exclude_count = length (filter (\<lambda>kw. substring kw text_lower) (exclude_keywords self));
              mechanic_count = length (filter (\<lambda>kw. substring kw text_lower) (mechanic_keywords self))
          in if exclude_count > mechanic_count
             then (True, ''More exclusion signals ('' @ show_nat exclude_count
                          @ '') than mechanic signals ('' @ show_nat mechanic_count @ '')'')
             else exclude_keyword_loop self text_lower rest
      else exclude_keyword_loop self text_lower rest)"

definition should_exclude :: "InvoiceClassifier \<Rightarrow> string \<Rightarrow> string \<Rightarrow> bool \<times> string" where
  "should_exclude self text sender =
     (let text_lower = lower text;
          sender_lower = lower sender
      in case exclude_sender_loop sender_lower (exclude_senders self) of
           Some r \<Rightarrow> r
         | None \<Rightarrow> exclude_keyword_loop self text_lower (exclude_keywords self))"

subsection \<open>Confidence score (classify, step 4)\<close>

text \<open>
  The score is a Python float built from the decimal constants below by additions in a
  fixed order.  It is modelled by the exact decimal value as a \<^typ>\<open>real\<close>.  Every sum
  the code can form is a multiple of 0.05 between 0 and 1.25; on these the float
  comparison with 0.3 and the percentage printed by \<open>{confidence:.0%}\<close> agree with the
  exact values.
\<close>

text \<open>VIN matches: the first of the four that occurs.\<close>

definition vin_score :: "string \<Rightarrow> real" where
  "vin_score full_text =
     (if substring (lower FULL_VIN) (lower full_text) then 0.4
      else if substring (lower VIN_LAST_8) (lower full_text) then 0.35
      else if substring (lower VIN_LAST_6) (lower full_text) then 0.25
      else if substring (lower VIN_LAST_4) (lower full_text) then 0.15
      else 0)"

text \<open>
  Unit number match: \<open>unit 574\<close> in the lowered text, else \<open>574\<close> in the text as it
  is.
\<close>

definition unit_score :: "string \<Rightarrow> real" where
  "unit_score full_text =
     (if substring (lower (''unit '' @ UNIT_NUMBER)) (lower full_text) then 0.2
      else if substring UNIT_NUMBER full_text then 0.1
      else 0)"

definition keyword_score :: "string list \<Rightarrow> real" where
  "keyword_score found_keywords = min (real (length found_keywords) * 0.1) 0.4"

definition has_pdf :: "string list \<Rightarrow> bool" where
  "has_pdf attachment_names = list_ex (\<lambda>name. suffix ''.pdf'' (lower name)) attachment_names"

definition confidence_score :: "string \<Rightarrow> string \<Rightarrow> string list \<Rightarrow> string list \<Rightarrow> real" where
  "confidence_score subject full_text found_keywords attachment_names =
     (let confidence = 0.0;
          confidence = confidence + vin_score full_text;
          confidence = confidence + unit_score full_text;
          confidence = confidence + keyword_score found_keywords;
          confidence = (if has_pdf attachment_names then confidence + 0.1 else confidence);
          confidence = (if substring ''invoice'' (lower subject) then confidence + 0.15 else confidence)
      in min confidence 1.0)"

text \<open>
  \<open>f"{confidence:.0%}"\<close>: the value times 100, rounded to an integer, and a percent
  sign.
\<close>

definition percent :: "real \<Rightarrow> string" where
  "percent c = show_nat (nat (round (c * 100))) @ ''%''"

subsection \<open>classify\<close>

record classification =
  is_mechanic_invoice :: bool
  confidence :: real
  reason :: string
  found_identifiers :: "string list"
  found_keywords :: "string list"

text \<open>\<open>full_text = f"{subject} {body} {' '.join(attachment_names)}"\<close>\<close>

definition message_text :: "string \<Rightarrow> string \<Rightarrow> string list \<Rightarrow> string" where
  "message_text subject body attachment_names =
     subject @ '' '' @ body @ '' '' @ join '' '' attachment_names"

definition classify ::
  "InvoiceClassifier \<Rightarrow> string \<Rightarrow> string \<Rightarrow> string \<Rightarrow> string list \<Rightarrow> classification" where
  "classify self subject body sender attachment_names =
     (let full_text = message_text subject body attachment_names;
          result = \<lparr>is_mechanic_invoice = False, confidence = 0.0, reason = '''',
                    found_identifiers = [], found_keywords = []\<rparr>;
          (should_excl, exclude_reason) = should_exclude self full_text sender
      in if should_excl then result\<lparr>reason := ''EXCLUDED: '' @ exclude_reason\<rparr>
         else
           let (has_truck_id, found_ids) = contains_truck_identifier self full_text;
               result = result\<lparr>found_identifiers := found_ids\<rparr>
           in if \<not> has_truck_id
              then result\<lparr>reason := ''No truck identifier found (574, VIN, etc.)''\<rparr>
              else
                let (is_mechanic, found_kws) = is_mechanic_related self full_text;
                    result = result\<lparr>found_keywords := found_kws\<rparr>
                in if \<not> is_mechanic
                   then result\<lparr>reason := ''Found truck ID ('' @ repr_list found_ids
                                            @ '') but no mechanic keywords''\<rparr>
                   else
                     let conf = confidence_score subject full_text found_kws attachment_names
                     in if conf \<ge> 0.3
                        then result\<lparr>is_mechanic_invoice := True, confidence := conf,
                               reason := ''Mechanic invoice detected (confidence: ''
                                         @ percent conf @ '')''\<rparr>
                        else result\<lparr>reason := ''Low confidence ('' @ percent conf
                                                 @ '') - not enough signals''\<rparr>)"
definition reaches_scoring ::
  "InvoiceClassifier \<Rightarrow> string \<Rightarrow> string \<Rightarrow> string \<Rightarrow> string list \<Rightarrow> bool" where
  "reaches_scoring self subject body sender attachment_names =
     (let full_text = message_text subject body attachment_names
      in \<not> fst (should_exclude self full_text sender)
         \<and> fst (contains_truck_identifier self full_text)
         \<and> fst (is_mechanic_related self full_text))"

definition computed_confidence ::
  "InvoiceClassifier \<Rightarrow> string \<Rightarrow> string \<Rightarrow> string list \<Rightarrow> real" where
  "computed_confidence self subject body attachment_names =
     (let full_text = message_text subject body attachment_names
      in confidence_score subject full_text (snd (is_mechanic_related self full_text))
           attachment_names)"

definition longest_vin_match :: "string \<Rightarrow> nat" where
  "longest_vin_match full_text =
     fold max
       (map length
          (filter (\<lambda>v. substring (lower v) (lower full_text))
             [FULL_VIN, VIN_LAST_8, VIN_LAST_6, VIN_LAST_4]))
       0"

definition is_alnum :: "char \<Rightarrow> bool" where
  "is_alnum c =
     (let n = (of_char c :: nat)
      in (48 \<le> n \<and> n \<le> 57) \<or> (65 \<le> n \<and> n \<le> 90) \<or> (97 \<le> n \<and> n \<le> 122))"

fun tokens_from :: "string \<Rightarrow> string \<Rightarrow> string list" where
  "tokens_from acc [] = (if acc = [] then [] else [rev acc])"
| "tokens_from acc (c # cs) =
     (if is_alnum c then tokens_from (c # acc) cs
      else (if acc = [] then [] else [rev acc]) @ tokens_from [] cs)"

definition tokens :: "string \<Rightarrow> string list" where
  "tokens s = tokens_from [] s"

definition unit_score_claimed :: "string \<Rightarrow> real" where
  "unit_score_claimed full_text =
     (if substring (lower (''unit '' @ UNIT_NUMBER)) (lower full_text) then 0.2
      else if UNIT_NUMBER \<in> set (tokens full_text) then 0.1
      else 0)"

lemma lower_char_Char [code]:
  "lower_char (Char b0 b1 b2 b3 b4 b5 b6 b7) =
     (if b6 \<and> \<not> b5 \<and>
         (if b7 then \<not> (b0 \<and> b1 \<and> b2 \<and> b3 \<and> b4) \<and> \<not> (b0 \<and> b1 \<and> b2 \<and> \<not> b3 \<and> b4)
          else (b0 \<or> b1 \<or> b2 \<or> b3 \<or> b4) \<and> \<not> (b4 \<and> b3 \<and> (b2 \<or> (b1 \<and> b0))))
      then Char b0 b1 b2 b3 b4 True b6 b7
      else Char b0 b1 b2 b3 b4 b5 b6 b7)"
  by (cases b0; cases b1; cases b2; cases b3; cases b4; cases b5; cases b6; cases b7;
      simp add: lower_char_def char_of_def bit_0)

subsection \<open>The two loops of should_exclude\<close>

lemma exclude_sender_loop_None:
  "exclude_sender_loop sl xs = None \<longleftrightarrow> (\<forall>s\<in>set xs. \<not> substring s sl)"
  by (induction xs) auto

lemma exclude_sender_loop_Some:
  "exclude_sender_loop sl xs = Some r \<Longrightarrow>
     \<exists>s\<in>set xs. substring s sl \<and> r = (True, ''Excluded sender: '' @ s)"
  by (induction xs) (auto split: if_splits)

lemma exclude_keyword_loop_veto:
  "\<exists>kw\<in>set ks. substring kw txt \<and> substring ''rate'' kw \<and> substring ''confirm'' kw \<Longrightarrow>
     fst (exclude_keyword_loop self txt ks)"
  by (induction ks) (auto simp: Let_def)

lemma exclude_keyword_loop_soft:
  "\<forall>kw\<in>set ks. substring kw txt \<longrightarrow> \<not> (substring ''rate'' kw \<and> substring ''confirm'' kw) \<Longrightarrow>
     fst (exclude_keyword_loop self txt ks) \<longleftrightarrow>
       (\<exists>kw\<in>set ks. substring kw txt) \<and>
       length (filter (\<lambda>kw. substring kw txt) (exclude_keywords self))
         > length (filter (\<lambda>kw. substring kw txt) (mechanic_keywords self))"
  by (induction ks) (auto simp: Let_def)

lemma should_exclude_sender:
  assumes "\<exists>s\<in>set (exclude_senders self). substring s (lower sender)"
  shows "\<exists>s\<in>set (exclude_senders self).
           should_exclude self text sender = (True, ''Excluded sender: '' @ s)"
proof -
  from assms have "exclude_sender_loop (lower sender) (exclude_senders self) \<noteq> None"
    by (simp add: exclude_sender_loop_None)
  then obtain r where r: "exclude_sender_loop (lower sender) (exclude_senders self) = Some r"
    by blast
  from exclude_sender_loop_Some [OF r] r show ?thesis
    by (auto simp: should_exclude_def)
qed

lemma should_exclude_no_sender:
  assumes "\<forall>s\<in>set (exclude_senders self). \<not> substring s (lower sender)"
  shows "should_exclude self text sender =
           exclude_keyword_loop self (lower text) (exclude_keywords self)"
  using assms by (simp add: should_exclude_def exclude_sender_loop_None [THEN iffD2])

lemma should_exclude_veto:
  assumes "\<exists>kw\<in>set (exclude_keywords self).
             substring kw (lower text) \<and> substring ''rate'' kw \<and> substring ''confirm'' kw"
  shows "fst (should_exclude self text sender)"
proof (cases "exclude_sender_loop (lower sender) (exclude_senders self)")
  case None
  then show ?thesis
    using exclude_keyword_loop_veto [OF assms] by (simp add: should_exclude_def)
next
  case (Some r)
  from exclude_sender_loop_Some [OF Some] Some show ?thesis
    by (auto simp: should_exclude_def)
qed

subsection \<open>classify, branch by branch\<close>

lemma classify_excluded:
  "fst (should_exclude self (message_text subject body names) sender) \<Longrightarrow>
     classify self subject body sender names =
       \<lparr>is_mechanic_invoice = False, confidence = 0, reason =
          ''EXCLUDED: '' @ snd (should_exclude self (message_text subject body names) sender),
        found_identifiers = [], found_keywords = []\<rparr>"
  by (simp add: classify_def Let_def case_prod_beta)

lemma classify_no_identifier:
  "\<not> fst (should_exclude self (message_text subject body names) sender) \<Longrightarrow>
   \<not> fst (contains_truck_identifier self (message_text subject body names)) \<Longrightarrow>
     classify self subject body sender names =
       \<lparr>is_mechanic_invoice = False, confidence = 0,
        reason = ''No truck identifier found (574, VIN, etc.)'',
        found_identifiers = snd (contains_truck_identifier self (message_text subject body names)),
        found_keywords = []\<rparr>"
  by (simp add: classify_def Let_def case_prod_beta)

lemma classify_no_keywords:
  "\<not> fst (should_exclude self (message_text subject body names) sender) \<Longrightarrow>
   fst (contains_truck_identifier self (message_text subject body names)) \<Longrightarrow>
   \<not> fst (is_mechanic_related self (message_text subject body names)) \<Longrightarrow>
     classify self subject body sender names =
       \<lparr>is_mechanic_invoice = False, confidence = 0,
        reason = ''Found truck ID (''
                 @ repr_list (snd (contains_truck_identifier self (message_text subject body names)))
                 @ '') but no mechanic keywords'',
        found_identifiers = snd (contains_truck_identifier self (message_text subject body names)),
        found_keywords = snd (is_mechanic_related self (message_text subject body names))\<rparr>"
  by (simp add: classify_def Let_def case_prod_beta)

lemma classify_scored:
  "\<not> fst (should_exclude self (message_text subject body names) sender) \<Longrightarrow>
   fst (contains_truck_identifier self (message_text subject body names)) \<Longrightarrow>
   fst (is_mechanic_related self (message_text subject body names)) \<Longrightarrow>
     classify self subject body sender names =
       (let ft = message_text subject body names;
            ids = snd (contains_truck_identifier self ft);
            kws = snd (is_mechanic_related self ft);
            conf = confidence_score subject ft kws names
        in if conf \<ge> 0.3
           then \<lparr>is_mechanic_invoice = True, confidence = conf,
                 reason = ''Mechanic invoice detected (confidence: '' @ percent conf @ '')'',
                 found_identifiers = ids, found_keywords = kws\<rparr>
           else \<lparr>is_mechanic_invoice = False, confidence = 0,
                 reason = ''Low confidence ('' @ percent conf @ '') - not enough signals'',
                 found_identifiers = ids, found_keywords = kws\<rparr>)"
  by (simp add: classify_def Let_def case_prod_beta)


subsection \<open>Characters that lowering leaves alone\<close>

lemma lower_char_idem: "lower_char (lower_char c) = lower_char c"
proof (cases c)
  case (Char b0 b1 b2 b3 b4 b5 b6 b7)
  show ?thesis unfolding Char
    by (cases b5; cases b6; simp add: lower_char_Char)
qed

lemma lower_idem: "lower (lower s) = lower s"
  by (simp add: lower_def lower_char_idem)

lemma lower_char_574: "d \<in> set ''574'' \<Longrightarrow> lower_char c = d \<longleftrightarrow> c = d"
proof (cases c)
  case (Char b0 b1 b2 b3 b4 b5 b6 b7)
  assume "d \<in> set ''574''"
  then consider "d = CHR ''5''" | "d = CHR ''7''" | "d = CHR ''4''" by auto
  then show ?thesis unfolding Char
    by cases (cases b5; cases b6; simp add: lower_char_Char; blast)+
qed

lemma map_eq_neutral:
  assumes eq: "map f xs = n" and neutral: "\<forall>d\<in>set n. \<forall>c. f c = d \<longrightarrow> c = d"
  shows "xs = n"
proof -
  have "map f xs = xs"
  proof (rule map_idI)
    fix x assume "x \<in> set xs"
    then have "f x \<in> set n"
      using eq by force
    with neutral show "f x = x"
      by metis
  qed
  with eq show ?thesis
    by simp
qed

lemma sublist_map_neutral:
  assumes "\<forall>d\<in>set n. \<forall>c. f c = d \<longleftrightarrow> c = d"
  shows "sublist n (map f t) \<longleftrightarrow> sublist n t"
proof
  assume "sublist n (map f t)"
  then obtain p s where "map f t = p @ n @ s"
    unfolding sublist_def by blast
  then have "\<exists>us vs. t = us @ vs \<and> p = map f us \<and> n @ s = map f vs"
    by (simp only: map_eq_append_conv)
  then obtain p' r where r: "t = p' @ r" "n @ s = map f r"
    by blast
  from r(2) have "\<exists>us vs. r = us @ vs \<and> n = map f us \<and> s = map f vs"
    by (simp only: append_eq_map_conv)
  then obtain n' s' where r': "r = n' @ s'" and n': "map f n' = n"
    by blast
  have "\<forall>d\<in>set n. \<forall>c. f c = d \<longrightarrow> c = d"
    using assms by blast
  with n' have "n' = n"
    by (rule map_eq_neutral)
  with r(1) r' have "t = p' @ n @ s'"
    by simp
  then show "sublist n t"
    unfolding sublist_def by blast
next
  assume "sublist n t"
  then have "sublist (map f n) (map f t)"
    by (rule map_mono_sublist)
  moreover have "map f n = n"
  proof (rule map_idI)
    fix x assume "x \<in> set n"
    with assms show "f x = x" by blast
  qed
  ultimately show "sublist n (map f t)"
    by simp
qed

lemma substring_574_lower: "substring ''574'' (lower t) \<longleftrightarrow> substring ''574'' t"
  unfolding lower_def using lower_char_574 by (intro sublist_map_neutral) blast

lemma substring_unit_574: "substring ''unit 574'' t \<Longrightarrow> substring ''574'' t"
proof -
  assume "substring ''unit 574'' t"
  moreover have "substring ''574'' ''unit 574''"
    by code_simp
  ultimately show ?thesis
    using sublist_order.order_trans by blast
qed


subsection \<open>The parts of the score\<close>

lemma vin_score_bounds: "0 \<le> vin_score ft" "vin_score ft \<le> 0.4"
  by (simp_all add: vin_score_def)

lemma unit_score_bounds: "0 \<le> unit_score ft" "unit_score ft \<le> 0.2"
  by (simp_all add: unit_score_def)

lemma keyword_score_bounds: "0 \<le> keyword_score ks" "keyword_score ks \<le> 0.4"
  by (simp_all add: keyword_score_def)

lemma keyword_score_pos: "ks \<noteq> [] \<Longrightarrow> 0.1 \<le> keyword_score ks"
  by (cases ks) (simp_all add: keyword_score_def)

lemma keyword_score_mono: "length ks \<le> length ks' \<Longrightarrow> keyword_score ks \<le> keyword_score ks'"
  unfolding keyword_score_def by (auto simp: min_def)

lemma confidence_score_sum:
  "confidence_score subject ft ks names =
     min (vin_score ft + unit_score ft + keyword_score ks
          + (if has_pdf names then 0.1 else 0)
          + (if substring ''invoice'' (lower subject) then 0.15 else 0)) 1"
  by (simp add: confidence_score_def Let_def)

lemma vin_lengths:
  "length FULL_VIN = 17" "length VIN_LAST_8 = 8" "length VIN_LAST_6 = 6" "length VIN_LAST_4 = 4"
  by (simp_all add: FULL_VIN_def VIN_LAST_8_def VIN_LAST_6_def VIN_LAST_4_def)

lemma vin_score_longest:
  "vin_score ft =
     (if longest_vin_match ft = 17 then 0.4
      else if longest_vin_match ft = 8 then 0.35
      else if longest_vin_match ft = 6 then 0.25
      else if longest_vin_match ft = 4 then 0.15 else 0)"
  "longest_vin_match ft \<in> {0, 4, 6, 8, 17}"
  by (simp_all add: vin_score_def longest_vin_match_def vin_lengths)

lemma vin_score_mono:
  assumes "longest_vin_match ft1 \<le> longest_vin_match ft2"
  shows "vin_score ft1 \<le> vin_score ft2"
proof -
  have "longest_vin_match ft1 \<in> {0, 4, 6, 8, 17}" "longest_vin_match ft2 \<in> {0, 4, 6, 8, 17}"
    by (rule vin_score_longest(2))+
  with assms show ?thesis
    unfolding vin_score_longest(1) [of ft1] vin_score_longest(1) [of ft2] by auto
qed

section \<open>Claims about the classifier\<close>

text \<open>
  C3.  Whenever the lowered sender contains one of the classifier's excluded-sender
  substrings, \<open>classify\<close> rejects, whatever the subject, the body and the attachment
  names hold; the rationale names an excluded sender, so it is the sender rule that
  decided.
\<close>

theorem classify_excluded_sender_rejects:
  assumes "\<exists>s\<in>set (exclude_senders self). substring s (lower sender)"
  shows "\<not> is_mechanic_invoice (classify self subject body sender names)
         \<and> (\<exists>s\<in>set (exclude_senders self).
               reason (classify self subject body sender names)
                 = ''EXCLUDED: Excluded sender: '' @ s)"
proof -
  from should_exclude_sender [OF assms, of "message_text subject body names"]
  obtain s where s: "s \<in> set (exclude_senders self)"
    and ex: "should_exclude self (message_text subject body names) sender
               = (True, ''Excluded sender: '' @ s)"
    by blast
  from ex have "fst (should_exclude self (message_text subject body names) sender)"
    by simp
  from classify_excluded [OF this] ex s show ?thesis
    by auto
qed

theorem classify_excluded_sender_rejects_witness:
  "(\<exists>s\<in>set (exclude_senders InvoiceClassifier_init).
      substring s (lower ''Load Board <No-Reply@DAT.com>''))
   \<and> \<not> is_mechanic_invoice
         (classify InvoiceClassifier_init ''Invoice - PM Service Unit 574''
            ''Brake repair for VIN 3AKJHHDR7KSKE1598'' ''Load Board <No-Reply@DAT.com>''
            [''invoice.pdf''])"
proof -
  have h: "\<exists>s\<in>set (exclude_senders InvoiceClassifier_init).
             substring s (lower ''Load Board <No-Reply@DAT.com>'')"
    by code_simp
  from classify_excluded_sender_rejects [OF h] h show ?thesis
    by blast
qed

text \<open>
  C2.  Whenever the lowered text of the message (subject, body and attachment names)
  contains an exclusion keyword that itself holds both \<open>rate\<close> and \<open>confirm\<close>,
  \<open>classify\<close> rejects, whatever the sender and however many mechanic keywords or
  identifiers the text holds.
\<close>

theorem classify_rate_confirmation_rejects:
  assumes "\<exists>kw\<in>set (exclude_keywords self).
             substring ''rate'' kw \<and> substring ''confirm'' kw
             \<and> substring kw (lower (message_text subject body names))"
  shows "\<not> is_mechanic_invoice (classify self subject body sender names)"
proof -
  from assms have "fst (should_exclude self (message_text subject body names) sender)"
    by (intro should_exclude_veto) blast
  from classify_excluded [OF this] show ?thesis
    by simp
qed

theorem classify_rate_confirmation_rejects_witness:
  "(\<exists>kw\<in>set (exclude_keywords InvoiceClassifier_init).
      substring ''rate'' kw \<and> substring ''confirm'' kw
      \<and> substring kw (lower (message_text ''Rate Confirmation #4471''
            ''Unit 574 brake repair, tire service, oil change invoice'' [''invoice.pdf''])))
   \<and> \<not> is_mechanic_invoice
         (classify InvoiceClassifier_init ''Rate Confirmation #4471''
            ''Unit 574 brake repair, tire service, oil change invoice'' ''shop@example.com''
            [''invoice.pdf''])"
proof -
  have h: "\<exists>kw\<in>set (exclude_keywords InvoiceClassifier_init).
      substring ''rate'' kw \<and> substring ''confirm'' kw
      \<and> substring kw (lower (message_text ''Rate Confirmation #4471''
            ''Unit 574 brake repair, tire service, oil change invoice'' [''invoice.pdf'']))"
    by code_simp
  from classify_rate_confirmation_rejects [OF h] h show ?thesis
    by blast
qed


end
